theory Spec2Isabelle
  imports Main
begin

section \<open>Data model of LibroFmClient.ts\<close>

text \<open>
  The client is a TypeScript class with two mutable fields, \<open>config\<close> (the session:
  credentials, auth token, download directory) and \<open>state\<close> (the ledger of finished
  downloads). Its methods call four collaborators that are imported, not defined, by
  the file: \<open>APIHandler\<close> (the remote gateway), \<open>DownloadCLient\<close> (the transfer),
  \<open>InputHandler\<close> (interactive prompts) and \<open>logger\<close>. The model passes the client
  explicitly, takes the collaborators as a record of functions, and writes every call to
  a collaborator into a trace, so that "is never invoked" is a statement about the trace.
\<close>

subsection \<open>JavaScript values\<close>

text \<open>
  The exceptions that can leave a method. Three are created by the client itself:
  \<open>new Error("Not logged in")\<close>, \<open>new Error("No authors found")\<close> and
  \<open>new Error("Failed to download books")\<close>. \<open>Rejected\<close> is the rejection of a
  collaborator's promise, carrying that error's message. The decorator \<open>@LogMethod\<close>
  is taken to log and nothing else.
\<close>

datatype error =
    NotLoggedIn
  | NoAuthorsFound
  | DownloadFailed
  | Rejected string

text \<open>
  \<open>book.authors\<close> is tested with \<open>!book.authors\<close> and with
  \<open>typeof book.authors === "string"\<close>, so it is absent, one string, or an array of
  strings.
\<close>

datatype authors_field =
    NoAuthors
  | AuthorName string
  | AuthorList "string list"

text \<open>
  The type \<open>Audiobook\<close> is declared outside the file; these are the fields the client
  reads. \<open>series\<close> is used only when it is a string, and \<open>series_num\<close> is a string
  where present, as in the spec's example.
\<close>

record audiobook =
  isbn :: string
  title :: string
  authors :: authors_field
  series :: "string option"
  series_num :: "string option"

record part =
  url :: string

text \<open>\<open>DownloadMetadata\<close>; its field \<open>isbn\<close> is \<open>meta_isbn\<close> here.\<close>

record download_metadata =
  meta_isbn :: string
  parts :: "part list"

text \<open>The object handed to \<open>state.addBook\<close> (lines 138 to 143).\<close>

record download_record =
  book :: audiobook
  path :: string
  meta :: download_metadata
  zippedPaths :: "string list option"

text \<open>What \<open>APIHandler.fetchLibrary\<close> resolves to: one page of the listing.\<close>

record library_page =
  audiobooks :: "audiobook list"
  total_pages :: int

type_synonym audiobook_map = "string \<rightharpoonup> audiobook"

text \<open>
  JavaScript truthiness of a value of type \<open>string | undefined\<close> (or \<open>| null\<close>):
  only a non-empty string is truthy.
\<close>

fun truthy :: "string option \<Rightarrow> bool" where
  "truthy None = False"
| "truthy (Some s) = (s \<noteq> [])"


text \<open>\<open>Array.prototype.join\<close> on an array of strings.\<close>

fun join :: "string \<Rightarrow> string list \<Rightarrow> string" where
  "join sep [] = []"
| "join sep [x] = x"
| "join sep (x # y # ys) = x @ sep @ join sep (y # ys)"

text \<open>\<open>xs.filter(Boolean)\<close> on an array whose elements are strings, null or undefined.\<close>

fun filter_Boolean :: "string option list \<Rightarrow> string list" where
  "filter_Boolean [] = []"
| "filter_Boolean (None # xs) = filter_Boolean xs"
| "filter_Boolean (Some s # xs) = (if s = [] then filter_Boolean xs else s # filter_Boolean xs)"

subsection \<open>The session and the client\<close>

record config =
  authToken :: "string option"
  username :: "string option"
  password :: "string option"
  downloadDir :: "string option"

text \<open>
  Modelled from the spec: the class \<open>Config\<close> is imported from \<open>@/lib/Config\<close> and
  its source is not part of the file. The spec (4.3) gives \<open>change(partial)\<close> as
  merging the given fields and leaving the others untouched, with an absent auth token
  a valid explicit value. The client calls it with the single field \<open>authToken\<close>.
\<close>

definition change_authToken :: "string option \<Rightarrow> config \<Rightarrow> config" where
  "change_authToken v cfg = cfg\<lparr>authToken := v\<rparr>"

text \<open>The ledger class \<open>State\<close> is imported too; its type is left open as \<open>'l\<close>.\<close>

record 'l libro_client =
  config :: config
  state :: 'l

subsection \<open>Collaborators and the trace of their calls\<close>

datatype event =
    FetchLibrary "string option" int
  | FetchDownloadMetadata string string
  | RequestOverwrite audiobook
  | DownloadFiles string "string list" string bool "string option"
  | SaveMetadata audiobook download_metadata string
  | AddBook download_record
  | LogVerbose string
  | LogErrorMessage string
  | LogError error

text \<open>
  Each collaborator is a function of its arguments that either rejects with a message or
  resolves to a value. One call of \<open>getLibrary\<close> asks for each page number at most
  once, and one call of \<open>downloadBook\<close> calls each collaborator at most once, so a
  function of the arguments describes every behaviour the collaborators can show.
  \<open>hasBook\<close> and \<open>addBook\<close> are the two methods of \<open>State\<close> the client uses; a
  rejected \<open>addBook\<close> returns no new ledger.
\<close>

record 'l collaborators =
  fetchLibrary :: "string option \<Rightarrow> int \<Rightarrow> string + library_page"
  fetchDownloadMetadata :: "string \<Rightarrow> string \<Rightarrow> string + download_metadata"
  requestOverwrite :: "audiobook \<Rightarrow> string + bool"
  downloadFiles :: "string \<Rightarrow> string list \<Rightarrow> string \<Rightarrow> bool \<Rightarrow> string option
                      \<Rightarrow> string + (string \<times> string list option)"
  saveMetadata :: "audiobook \<Rightarrow> download_metadata \<Rightarrow> string \<Rightarrow> string + unit"
  hasBook :: "'l \<Rightarrow> string \<Rightarrow> bool"
  addBook :: "'l \<Rightarrow> download_record \<Rightarrow> string + 'l"

text \<open>What a method leaves behind: its result or exception, the client, the trace.\<close>

record ('l, 'a) outcome =
  result :: "error + 'a"
  client :: "'l libro_client"
  trace :: "event list"

section \<open>getLibrary (lines 52 to 81)\<close>

text \<open>
  The body of the \<open>for\<close> loop, \<open>audiobooks[book.isbn] = book\<close>, over one page.
\<close>

definition merge_page :: "audiobook list \<Rightarrow> audiobook_map \<Rightarrow> audiobook_map" where
  "merge_page bs m = fold (\<lambda>b m'. m'(isbn b \<mapsto> b)) bs m"

text \<open>
  The \<open>while (true)\<close> loop. Nothing bounds the number of pages a gateway may report, so
  the loop is a partial function: \<open>None\<close> is a run that never returns. The state of
  the loop is the session, the map built so far, the page number and the trace.
\<close>

partial_function (option) getLibrary_loop ::
  "'l collaborators \<Rightarrow> config \<Rightarrow> audiobook_map \<Rightarrow> int \<Rightarrow> event list
     \<Rightarrow> (config \<times> audiobook_map \<times> event list) option"
where
  "getLibrary_loop env cfg books page tr =
     (case fetchLibrary env (authToken cfg) page of
        Inr data \<Rightarrow>
          if page \<ge> total_pages data
          then Some (cfg, merge_page (audiobooks data) books,
                     tr @ [FetchLibrary (authToken cfg) page])
          else getLibrary_loop env cfg (merge_page (audiobooks data) books) (page + 1)
                 (tr @ [FetchLibrary (authToken cfg) page])
      | Inl msg \<Rightarrow>
          Some (change_authToken None cfg, books,
                tr @ [FetchLibrary (authToken cfg) page,
                      LogErrorMessage (''Failed to fetch library: '' @ msg)]))"

definition getLibrary ::
  "'l collaborators \<Rightarrow> 'l libro_client \<Rightarrow> ('l, audiobook_map) outcome option"
where
  "getLibrary env c =
     (if \<not> truthy (authToken (config c))
      then Some \<lparr>result = Inl NotLoggedIn, client = c, trace = []\<rparr>
      else map_option
             (\<lambda>(cfg, books, tr). \<lparr>result = Inr books, client = c\<lparr>config := cfg\<rparr>, trace = tr\<rparr>)
             (getLibrary_loop env (config c) Map.empty 1 []))"

section \<open>downloadBook (lines 85 to 150)\<close>

text \<open>
  \<open>getDownloadMetadata\<close> (lines 162 to 169): the check of the token, then the
  gateway's call, awaited with no \<open>try\<close> around it.
\<close>

definition getDownloadMetadata ::
  "'l collaborators \<Rightarrow> 'l libro_client \<Rightarrow> string \<Rightarrow> (error + download_metadata) \<times> event list"
where
  "getDownloadMetadata env c i =
     (case authToken (config c) of
        None \<Rightarrow> (Inl NotLoggedIn, [])
      | Some tok \<Rightarrow>
          if tok = [] then (Inl NotLoggedIn, [])
          else (case fetchDownloadMetadata env tok i of
                  Inl msg \<Rightarrow> (Inl (Rejected msg), [FetchDownloadMetadata tok i])
                | Inr data \<Rightarrow> (Inr data, [FetchDownloadMetadata tok i])))"

text \<open>
  Lines 113 to 117: the guard \<open>if (!book.authors) throw new Error("No authors found")\<close>
  and the string \<open>authors\<close>.
\<close>

fun authors_string :: "authors_field \<Rightarrow> error + string" where
  "authors_string NoAuthors = Inl NoAuthorsFound"
| "authors_string (AuthorName s) = (if s = [] then Inl NoAuthorsFound else Inr s)"
| "authors_string (AuthorList xs) = Inr (join '', '' xs)"

text \<open>
  Lines 113 to 126: the value of \<open>filename\<close>. \<open>series\<close> is \<open>book.series\<close> when
  that is a string and null otherwise, which is the field itself here.
\<close>

definition derive_filename :: "audiobook \<Rightarrow> error + string" where
  "derive_filename b =
     (case authors_string (authors b) of
        Inl e \<Rightarrow> Inl e
      | Inr authors_s \<Rightarrow>
          let series_s = series b;
              title_s = join '' - '' (filter_Boolean [series_num b, Some (title b)])
          in Inr (join ''/'' (filter_Boolean [Some authors_s, series_s, Some title_s])))"

text \<open>
  The \<open>try\<close> block (lines 113 to 145): what it returns or throws, the ledger it leaves
  and the calls it made.
\<close>

definition try_block ::
  "'l collaborators \<Rightarrow> 'l libro_client \<Rightarrow> audiobook \<Rightarrow> download_metadata \<Rightarrow> string list
     \<Rightarrow> string \<Rightarrow> bool \<Rightarrow> (error + string) \<times> 'l \<times> event list"
where
  "try_block env c b metadata urls tok keepZip =
     (case derive_filename b of
        Inl e \<Rightarrow> (Inl e, state c, [])
      | Inr filename \<Rightarrow>
          (case downloadFiles env filename urls tok keepZip (downloadDir (config c)) of
             Inl msg \<Rightarrow>
               (Inl (Rejected msg), state c,
                [DownloadFiles filename urls tok keepZip (downloadDir (config c))])
           | Inr (p, zipped_files) \<Rightarrow>
               (case saveMetadata env b metadata p of
                  Inl msg \<Rightarrow>
                    (Inl (Rejected msg), state c,
                     [DownloadFiles filename urls tok keepZip (downloadDir (config c)),
                      SaveMetadata b metadata p])
                | Inr u \<Rightarrow>
                    (let r = \<lparr>book = b, path = p, meta = metadata,
                              zippedPaths = zipped_files\<rparr>
                     in case addBook env (state c) r of
                          Inl msg \<Rightarrow>
                            (Inl (Rejected msg), state c,
                             [DownloadFiles filename urls tok keepZip (downloadDir (config c)),
                              SaveMetadata b metadata p, AddBook r])
                        | Inr st \<Rightarrow>
                            (Inr filename, st,
                             [DownloadFiles filename urls tok keepZip (downloadDir (config c)),
                              SaveMetadata b metadata p, AddBook r])))))"

text \<open>
  The \<open>try\<close> with its \<open>catch\<close> (lines 112 to 149): the caught error goes to the log
  and a new \<open>Error("Failed to download books")\<close> is thrown.
\<close>

definition try_catch ::
  "'l collaborators \<Rightarrow> 'l libro_client \<Rightarrow> audiobook \<Rightarrow> download_metadata \<Rightarrow> string list
     \<Rightarrow> string \<Rightarrow> bool \<Rightarrow> event list \<Rightarrow> ('l, string) outcome"
where
  "try_catch env c b metadata urls tok keepZip tr =
     (case try_block env c b metadata urls tok keepZip of
        (Inr filename, st, evs) \<Rightarrow>
          \<lparr>result = Inr filename, client = c\<lparr>state := st\<rparr>, trace = tr @ evs\<rparr>
      | (Inl e, st, evs) \<Rightarrow>
          \<lparr>result = Inl DownloadFailed, client = c\<lparr>state := st\<rparr>,
           trace = tr @ evs @ [LogError e]\<rparr>)"

definition downloadBook ::
  "'l collaborators \<Rightarrow> 'l libro_client \<Rightarrow> audiobook \<Rightarrow> bool \<Rightarrow> bool \<Rightarrow> ('l, string) outcome"
where
  "downloadBook env c b overwrite keepZip =
     (case authToken (config c) of
        None \<Rightarrow> \<lparr>result = Inl NotLoggedIn, client = c, trace = []\<rparr>
      | Some tok \<Rightarrow>
          if tok = [] then \<lparr>result = Inl NotLoggedIn, client = c, trace = []\<rparr>
          else
            (case getDownloadMetadata env c (isbn b) of
               (Inl e, tr0) \<Rightarrow> \<lparr>result = Inl e, client = c, trace = tr0\<rparr>
             | (Inr metadata, tr0) \<Rightarrow>
                 (let tr1 = tr0 @ [LogVerbose (''Downloading book: '' @ meta_isbn metadata)];
                      urls = map url (parts metadata)
                  in if \<not> overwrite \<and> hasBook env (state c) (isbn b)
                     then (case requestOverwrite env b of
                             Inl msg \<Rightarrow>
                               \<lparr>result = Inl (Rejected msg), client = c,
                                trace = tr1 @ [RequestOverwrite b]\<rparr>
                           | Inr shouldOverwrite \<Rightarrow>
                               if \<not> shouldOverwrite
                               then \<lparr>result = Inr [], client = c,
                                     trace = tr1 @ [RequestOverwrite b,
                                                    LogVerbose ''Skipping download'']\<rparr>
                               else try_catch env c b metadata urls tok keepZip
                                      (tr1 @ [RequestOverwrite b]))
                     else try_catch env c b metadata urls tok keepZip tr1)))"

text \<open>Which events are calls of the transfer collaborator \<open>DownloadCLient\<close>.\<close>

fun is_transfer :: "event \<Rightarrow> bool" where
  "is_transfer (DownloadFiles f us t k d) = True"
| "is_transfer (SaveMetadata b m p) = True"
| "is_transfer e = False"

text \<open>Which events are calls that go to the network or the transfer.\<close>

fun is_network :: "event \<Rightarrow> bool" where
  "is_network (FetchLibrary t p) = True"
| "is_network (FetchDownloadMetadata t i) = True"
| "is_network e = is_transfer e"

section \<open>A ledger and collaborators to run the client on\<close>

text \<open>
  The class \<open>State\<close> is imported from \<open>@/lib/State\<close> and its source is not part of
  the file. The theorems hold for any ledger; the examples run on the ledger of the spec
  (4.2): records keyed by the item's identifier.
\<close>

type_synonym ledger = "string \<rightharpoonup> download_record"

text \<open>
  Modelled from the spec: \<open>State.hasBook\<close>, which is missing from the source; the spec
  gives \<open>hasRecord(identifier)\<close> as the presence of a record for the identifier.
\<close>

definition ledger_hasBook :: "ledger \<Rightarrow> string \<Rightarrow> bool" where
  "ledger_hasBook l i = (l i \<noteq> None)"

text \<open>
  Modelled from the spec: \<open>State.addBook\<close>, which is missing from the source; the spec
  gives \<open>putRecord(record)\<close> as an upsert by the item's identifier.
\<close>

definition ledger_addBook :: "ledger \<Rightarrow> download_record \<Rightarrow> string + ledger" where
  "ledger_addBook l r = Inr (l(isbn (book r) \<mapsto> r))"

text \<open>
  Three items, the two listings of the pagination examples, and collaborators that
  always succeed; single fields are replaced where an example needs a failure.
\<close>

definition bookA :: audiobook where
  "bookA = \<lparr>isbn = ''A'', title = ''The Book'', authors = AuthorList [''A. Author'', ''B. Writer''],
            series = Some ''Saga'', series_num = Some ''2''\<rparr>"
definition bookB :: audiobook where
  "bookB = \<lparr>isbn = ''B'', title = ''The Book'', authors = AuthorName ''A. Author'',
            series = None, series_num = None\<rparr>"
definition bookC :: audiobook where
  "bookC = \<lparr>isbn = ''C'', title = ''Third'', authors = AuthorName ''C. Scribe'',
            series = None, series_num = None\<rparr>"

definition two_pages :: "string option \<Rightarrow> int \<Rightarrow> string + library_page" where
  "two_pages tok p =
     (if p = 1 then Inr \<lparr>audiobooks = [bookA, bookB], total_pages = 2\<rparr>
      else if p = 2 then Inr \<lparr>audiobooks = [bookC], total_pages = 2\<rparr>
      else Inl ''no such page'')"

definition page_two_throws :: "string option \<Rightarrow> int \<Rightarrow> string + library_page" where
  "page_two_throws tok p =
     (if p = 1 then Inr \<lparr>audiobooks = [bookA, bookB], total_pages = 3\<rparr>
      else Inl ''expired'')"

definition example_env :: "ledger collaborators" where
  "example_env =
     \<lparr>fetchLibrary = two_pages,
      fetchDownloadMetadata = (\<lambda>tok i. Inr \<lparr>meta_isbn = i, parts = [\<lparr>url = ''u1''\<rparr>]\<rparr>),
      requestOverwrite = (\<lambda>b. Inr False),
      downloadFiles = (\<lambda>f us tok k d. Inr (''/dl/'' @ f, None)),
      saveMetadata = (\<lambda>b m p. Inr ()),
      hasBook = ledger_hasBook,
      addBook = ledger_addBook\<rparr>"

definition example_client :: "ledger libro_client" where
  "example_client =
     \<lparr>config = \<lparr>authToken = Some ''token'', username = None, password = None,
                downloadDir = Some ''/dl''\<rparr>,
      state = Map.empty\<rparr>"

text \<open>
  Items for the claims about authors: one without the field, one whose author is the
  empty string, one with an empty list of authors and nothing else to name it, and one
  with an empty list of authors in a series.
\<close>

definition no_authors_book :: audiobook where
  "no_authors_book = \<lparr>isbn = ''N'', title = ''Anonymous'', authors = NoAuthors,
            series = None, series_num = None\<rparr>"


definition blank_book :: audiobook where
  "blank_book = \<lparr>isbn = ''Z'', title = [], authors = AuthorList [],
            series = None, series_num = None\<rparr>"


text \<open>A client whose ledger already holds a record of the item.\<close>

definition record_of :: "audiobook \<Rightarrow> download_record" where
  "record_of b = \<lparr>book = b, path = ''/dl/old'', meta = \<lparr>meta_isbn = isbn b, parts = []\<rparr>,
                  zippedPaths = None\<rparr>"

definition returning_client :: "audiobook \<Rightarrow> ledger libro_client" where
  "returning_client b = example_client\<lparr>state := [isbn b \<mapsto> record_of b]\<rparr>"

text \<open>Collaborators with one failure: a transfer that rejects, a gateway that rejects.\<close>

definition full_disk_env :: "ledger collaborators" where
  "full_disk_env = example_env\<lparr>downloadFiles := \<lambda>f us tok k d. Inl ''disk full''\<rparr>"

definition gateway_down_env :: "ledger collaborators" where
  "gateway_down_env = example_env\<lparr>fetchDownloadMetadata := \<lambda>tok i. Inl ''gone''\<rparr>"

text \<open>Collaborators whose overwrite prompt rejects, with the same message.\<close>

definition prompt_down_env :: "ledger collaborators" where
  "prompt_down_env = example_env\<lparr>requestOverwrite := \<lambda>b. Inl ''gone''\<rparr>"

section \<open>The relative path in the spec's words\<close>

text \<open>
  The spec gives the path as authors/series/"seriesPosition - title": the authors joined
  with a comma and a space, every missing component left out, the components that are
  present joined with the path separator. A component is missing when it is absent or
  empty. This is written with the list functions of the library, apart from the code's
  \<open>join\<close> and \<open>filter(Boolean)\<close>.
\<close>

text \<open>The strings of a list with a separator between neighbours.\<close>

definition sep_concat :: "string \<Rightarrow> string list \<Rightarrow> string" where
  "sep_concat sep xs =
     (case xs of [] \<Rightarrow> [] | x # ys \<Rightarrow> x @ concat (map (\<lambda>y. sep @ y) ys))"

text \<open>The author names an item carries.\<close>

fun author_names :: "authors_field \<Rightarrow> string list" where
  "author_names NoAuthors = []"
| "author_names (AuthorName n) = [n]"
| "author_names (AuthorList ns) = ns"

text \<open>
  The components of the path that are present: the authors, the series, and the title
  with the series position before it.
\<close>

definition spec_components ::
  "string list \<Rightarrow> string option \<Rightarrow> string option \<Rightarrow> string \<Rightarrow> string list"
where
  "spec_components names se pos t =
     filter (\<lambda>c. c \<noteq> [])
       [sep_concat '', '' names,
        (case se of None \<Rightarrow> [] | Some s \<Rightarrow> s),
        sep_concat '' - ''
          (filter (\<lambda>c. c \<noteq> []) [(case pos of None \<Rightarrow> [] | Some p \<Rightarrow> p), t])]"

definition spec_relative_path ::
  "string list \<Rightarrow> string option \<Rightarrow> string option \<Rightarrow> string \<Rightarrow> string"
where
  "spec_relative_path names se pos t = sep_concat ''/'' (spec_components names se pos t)"

section \<open>Pagination\<close>

lemma merge_page_map_of:
  "merge_page bs m = m ++ map_of (rev (map (\<lambda>b. (isbn b, b)) bs))"
proof (induction bs arbitrary: m)
  case Nil
  show ?case by (simp add: merge_page_def)
next
  case (Cons b bs)
  have "merge_page (b # bs) m = merge_page bs (m(isbn b \<mapsto> b))"
    by (simp add: merge_page_def)
  also have "\<dots> = m(isbn b \<mapsto> b) ++ map_of (rev (map (\<lambda>b. (isbn b, b)) bs))"
    by (rule Cons.IH)
  finally show ?case by (simp add: map_of_append)
qed

lemma loop_rejected:
  "fetchLibrary env (authToken cfg) page = Inl msg \<Longrightarrow>
   getLibrary_loop env cfg books page tr =
     Some (change_authToken None cfg, books,
           tr @ [FetchLibrary (authToken cfg) page,
                 LogErrorMessage (''Failed to fetch library: '' @ msg)])"
  by (subst getLibrary_loop.simps) simp

lemma loop_last:
  "fetchLibrary env (authToken cfg) page = Inr data \<Longrightarrow> total_pages data \<le> page \<Longrightarrow>
   getLibrary_loop env cfg books page tr =
     Some (cfg, merge_page (audiobooks data) books, tr @ [FetchLibrary (authToken cfg) page])"
  by (subst getLibrary_loop.simps) simp

lemma loop_next:
  "fetchLibrary env (authToken cfg) page = Inr data \<Longrightarrow> page < total_pages data \<Longrightarrow>
   getLibrary_loop env cfg books page tr =
     getLibrary_loop env cfg (merge_page (audiobooks data) books) (page + 1)
       (tr @ [FetchLibrary (authToken cfg) page])"
  by (subst getLibrary_loop.simps) simp

lemma loop_prefix:
  "\<forall>i<length pgs. fetchLibrary env (authToken cfg) (page + int i) = Inr (pgs ! i)
                    \<and> page + int i < total_pages (pgs ! i) \<Longrightarrow>
   getLibrary_loop env cfg books page tr =
     getLibrary_loop env cfg (merge_page (concat (map audiobooks pgs)) books)
       (page + int (length pgs))
       (tr @ map (FetchLibrary (authToken cfg)) [page..page + int (length pgs) - 1])"
proof (induction pgs arbitrary: books page tr)
  case Nil
  show ?case by (simp add: merge_page_def)
next
  case (Cons d ds)
  from Cons.prems have d: "fetchLibrary env (authToken cfg) page = Inr d" "page < total_pages d"
    by auto
  have rest: "\<forall>i<length ds. fetchLibrary env (authToken cfg) (page + 1 + int i) = Inr (ds ! i)
                    \<and> page + 1 + int i < total_pages (ds ! i)"
  proof (intro allI impI)
    fix i assume "i < length ds"
    then have "Suc i < length (d # ds)" by simp
    with Cons.prems have "fetchLibrary env (authToken cfg) (page + int (Suc i)) = Inr ((d # ds) ! Suc i)
                    \<and> page + int (Suc i) < total_pages ((d # ds) ! Suc i)" by blast
    then show "fetchLibrary env (authToken cfg) (page + 1 + int i) = Inr (ds ! i)
                    \<and> page + 1 + int i < total_pages (ds ! i)"
      by (simp add: ac_simps)
  qed
  have up: "[page..page + int (length (d # ds)) - 1] = page # [page + 1..page + 1 + int (length ds) - 1]"
    by (subst upto_rec1) (simp_all add: algebra_simps)
  have mg: "merge_page (concat (map audiobooks (d # ds))) books
          = merge_page (concat (map audiobooks ds)) (merge_page (audiobooks d) books)"
    by (simp add: merge_page_def)
  show ?case
    unfolding loop_next [OF d] Cons.IH [OF rest] up mg
    by (simp add: algebra_simps)
qed

lemma loop_outcome:
  assumes "getLibrary_loop env cfg books page tr = Some y"
  shows "\<exists>evs. snd (snd y) = tr @ evs \<and>
           (fst y = cfg \<and> (\<forall>p. FetchLibrary (authToken cfg) p \<in> set evs \<longrightarrow>
                              (\<exists>d. fetchLibrary env (authToken cfg) p = Inr d))
            \<or> fst y = cfg\<lparr>authToken := None\<rparr> \<and>
               (\<exists>p msg. FetchLibrary (authToken cfg) p \<in> set evs
                         \<and> fetchLibrary env (authToken cfg) p = Inl msg))"
  using assms
proof (induction env cfg books page tr y rule: getLibrary_loop.raw_induct [rotated 1, consumes 1])
  case (1 loop env cfg books page tr y)
  show ?case
  proof (cases "fetchLibrary env (authToken cfg) page")
    case (Inl msg)
    with 1(2) have y: "y = (change_authToken None cfg, books,
        tr @ [FetchLibrary (authToken cfg) page, LogErrorMessage (''Failed to fetch library: '' @ msg)])"
      by simp
    show ?thesis
      unfolding y using Inl by (auto simp: change_authToken_def)
  next
    case (Inr d)
    show ?thesis
    proof (cases "total_pages d \<le> page")
      case True
      with 1(2) Inr have y: "y = (cfg, merge_page (audiobooks d) books, tr @ [FetchLibrary (authToken cfg) page])"
        by simp
      show ?thesis unfolding y using Inr by auto
    next
      case False
      with 1(2) Inr have "loop env cfg (merge_page (audiobooks d) books) (page + 1)
                 (tr @ [FetchLibrary (authToken cfg) page]) = Some y"
        by simp
      from 1(1) [OF this] obtain evs where
        evs: "snd (snd y) = (tr @ [FetchLibrary (authToken cfg) page]) @ evs"
        and alt: "fst y = cfg \<and> (\<forall>p. FetchLibrary (authToken cfg) p \<in> set evs \<longrightarrow>
                              (\<exists>d. fetchLibrary env (authToken cfg) p = Inr d))
            \<or> fst y = cfg\<lparr>authToken := None\<rparr> \<and>
               (\<exists>p msg. FetchLibrary (authToken cfg) p \<in> set evs
                         \<and> fetchLibrary env (authToken cfg) p = Inl msg)"
        by blast
      have "snd (snd y) = tr @ (FetchLibrary (authToken cfg) page # evs)"
        using evs by simp
      moreover have "fst y = cfg \<and> (\<forall>p. FetchLibrary (authToken cfg) p \<in> set (FetchLibrary (authToken cfg) page # evs) \<longrightarrow>
                              (\<exists>d. fetchLibrary env (authToken cfg) p = Inr d))
            \<or> fst y = cfg\<lparr>authToken := None\<rparr> \<and>
               (\<exists>p msg. FetchLibrary (authToken cfg) p \<in> set (FetchLibrary (authToken cfg) page # evs)
                         \<and> fetchLibrary env (authToken cfg) p = Inl msg)"
        using alt Inr by auto
      ultimately show ?thesis by blast
    qed
  qed
qed

text \<open>
  Claim C2. With a truthy auth token, let the gateway resolve the pages 1 to n (n at least
  1), every page before the n-th reporting a total above its own number and the n-th a
  total that its number has reached. Then \<open>getLibrary\<close> returns; it has asked for
  exactly the pages 1 to n, in this order and starting at page 1; the map it returns
  sends each identifier to the last item carrying it in the pages read in order, so an
  item of a later page replaces an earlier one with the same identifier; and the client
  is as it was. The instance below is the listing of two pages with items A, B and C.
\<close>

theorem getLibrary_all_pages:
  assumes tok: "authToken (config c) = Some tok" "tok \<noteq> []"
    and ne: "pgs \<noteq> []"
    and ok: "\<forall>i<length pgs. fetchLibrary env (Some tok) (1 + int i) = Inr (pgs ! i)"
    and more: "\<forall>i<length pgs - 1. 1 + int i < total_pages (pgs ! i)"
    and stop: "total_pages (last pgs) \<le> int (length pgs)"
  shows "getLibrary env c =
           Some \<lparr>result = Inr (map_of (rev (map (\<lambda>b. (isbn b, b)) (concat (map audiobooks pgs))))),
                 client = c,
                 trace = map (FetchLibrary (Some tok)) [1..int (length pgs)]\<rparr>"
proof -
  let ?cfg = "config c"
  let ?ds = "butlast pgs"
  have len: "length ?ds = length pgs - 1" by simp
  have pre: "\<forall>i<length ?ds. fetchLibrary env (authToken ?cfg) (1 + int i) = Inr (?ds ! i)
                    \<and> 1 + int i < total_pages (?ds ! i)"
    using ok more tok by (simp add: nth_butlast)
  have lastp: "fetchLibrary env (authToken ?cfg) (1 + int (length ?ds)) = Inr (last pgs)"
    using ok ne tok by (simp add: last_conv_nth)
  have stop': "total_pages (last pgs) \<le> 1 + int (length ?ds)"
    using stop ne by (simp add: Suc_leI of_nat_diff)
  have cat: "concat (map audiobooks ?ds) @ audiobooks (last pgs) = concat (map audiobooks pgs)"
    using ne by (subst (3) append_butlast_last_id [symmetric]) (simp_all del: append_butlast_last_id)
  have up: "[1..int (length ?ds)] @ [1 + int (length ?ds)] = [1..int (length pgs)]"
    using ne by (subst (2) upto_rec2) (simp_all add: of_nat_diff Suc_leI)
  have "getLibrary_loop env ?cfg Map.empty 1 [] =
          Some (?cfg, merge_page (concat (map audiobooks pgs)) Map.empty,
                map (FetchLibrary (Some tok)) [1..int (length pgs)])"
  proof -
    have m: "merge_page (audiobooks (last pgs)) (merge_page (concat (map audiobooks ?ds)) Map.empty)
              = merge_page (concat (map audiobooks pgs)) Map.empty"
      unfolding cat [symmetric] by (simp add: merge_page_def)
    have t: "map (FetchLibrary (Some tok)) [1..int (length ?ds)] @
               [FetchLibrary (Some tok) (1 + int (length ?ds))]
             = map (FetchLibrary (Some tok)) [1..int (length pgs)]"
      unfolding up [symmetric] by simp
    show ?thesis
      unfolding loop_prefix [OF pre] loop_last [OF lastp stop'] m
      using tok t by simp
  qed
  then show ?thesis
    using tok by (simp add: getLibrary_def merge_page_map_of)
qed

theorem getLibrary_all_pages_witness:
  "getLibrary example_env example_client =
     Some \<lparr>result = Inr [''A'' \<mapsto> bookA, ''B'' \<mapsto> bookB, ''C'' \<mapsto> bookC],
           client = example_client,
           trace = [FetchLibrary (Some ''token'') 1, FetchLibrary (Some ''token'') 2]\<rparr>"
  using getLibrary_all_pages [of example_client "''token''"
          "[\<lparr>audiobooks = [bookA, bookB], total_pages = 2\<rparr>,
            \<lparr>audiobooks = [bookC], total_pages = 2\<rparr>]" example_env]
  by (simp add: example_env_def example_client_def two_pages_def less_Suc_eq
        bookA_def bookB_def bookC_def upto_rec1)

text \<open>
  Claim C1. With a truthy auth token, let the gateway resolve the first k pages (k may be
  0), each reporting a total above its own number, and reject the request for page k + 1.
  Then \<open>getLibrary\<close> returns a map and not an exception: the map holds the items of
  the k pages read; the rejected request is the last one made, followed only by the
  entry in the error log; and the session's auth token is absent afterwards, all else in
  the client as it was.
\<close>

theorem getLibrary_page_fails:
  assumes tok: "authToken (config c) = Some tok" "tok \<noteq> []"
    and ok: "\<forall>i<length pgs. fetchLibrary env (Some tok) (1 + int i) = Inr (pgs ! i)
                              \<and> 1 + int i < total_pages (pgs ! i)"
    and bad: "fetchLibrary env (Some tok) (1 + int (length pgs)) = Inl msg"
  shows "getLibrary env c =
           Some \<lparr>result = Inr (map_of (rev (map (\<lambda>b. (isbn b, b)) (concat (map audiobooks pgs))))),
                 client = c\<lparr>config := (config c)\<lparr>authToken := None\<rparr>\<rparr>,
                 trace = map (FetchLibrary (Some tok)) [1..1 + int (length pgs)]
                         @ [LogErrorMessage (''Failed to fetch library: '' @ msg)]\<rparr>"
proof -
  let ?cfg = "config c"
  have pre: "\<forall>i<length pgs. fetchLibrary env (authToken ?cfg) (1 + int i) = Inr (pgs ! i)
                    \<and> 1 + int i < total_pages (pgs ! i)"
    using ok tok by simp
  have bad': "fetchLibrary env (authToken ?cfg) (1 + int (length pgs)) = Inl msg"
    using bad tok by simp
  have up: "[1..1 + int (length pgs)] = [1..int (length pgs)] @ [1 + int (length pgs)]"
    by (subst upto_rec2) simp_all
  have "getLibrary_loop env ?cfg Map.empty 1 [] =
          Some (?cfg\<lparr>authToken := None\<rparr>, merge_page (concat (map audiobooks pgs)) Map.empty,
                map (FetchLibrary (Some tok)) [1..1 + int (length pgs)]
                @ [LogErrorMessage (''Failed to fetch library: '' @ msg)])"
    unfolding loop_prefix [OF pre] loop_rejected [OF bad'] up
    using tok by (simp add: change_authToken_def)
  then show ?thesis
    using tok by (simp add: getLibrary_def merge_page_map_of)
qed

theorem getLibrary_page_fails_witness:
  "getLibrary (example_env\<lparr>fetchLibrary := page_two_throws\<rparr>) example_client =
     Some \<lparr>result = Inr [''A'' \<mapsto> bookA, ''B'' \<mapsto> bookB],
           client = example_client\<lparr>config := (config example_client)\<lparr>authToken := None\<rparr>\<rparr>,
           trace = [FetchLibrary (Some ''token'') 1, FetchLibrary (Some ''token'') 2,
                    LogErrorMessage ''Failed to fetch library: expired'']\<rparr>"
  using getLibrary_page_fails [of example_client "''token''"
          "[\<lparr>audiobooks = [bookA, bookB], total_pages = 3\<rparr>]"
          "example_env\<lparr>fetchLibrary := page_two_throws\<rparr>" "''expired''"]
  by (simp add: example_env_def example_client_def page_two_throws_def
        bookA_def bookB_def upto_rec1)

section \<open>The download\<close>

subsection \<open>The paths through downloadBook\<close>

lemmas db_defs = downloadBook_def try_catch_def try_block_def getDownloadMetadata_def Let_def

lemmas example_defs = example_env_def example_client_def returning_client_def
  full_disk_env_def gateway_down_env_def prompt_down_env_def ledger_hasBook_def ledger_addBook_def record_of_def

lemma expired_listing_run:
  "getLibrary (full_disk_env\<lparr>fetchLibrary := page_two_throws\<rparr>) example_client =
     Some \<lparr>result = Inr [''A'' \<mapsto> bookA, ''B'' \<mapsto> bookB],
           client = example_client\<lparr>config := (config example_client)\<lparr>authToken := None\<rparr>\<rparr>,
           trace = [FetchLibrary (Some ''token'') 1, FetchLibrary (Some ''token'') 2,
                    LogErrorMessage ''Failed to fetch library: expired'']\<rparr>"
proof -
  let ?E = "full_disk_env\<lparr>fetchLibrary := page_two_throws\<rparr>"
  have first: "getLibrary_loop ?E (config example_client) Map.empty 1 [] =
      getLibrary_loop ?E (config example_client) (merge_page [bookA, bookB] Map.empty) 2
        [FetchLibrary (Some ''token'') 1]"
    by (subst getLibrary_loop.simps) (simp add: example_defs page_two_throws_def)
  have second: "getLibrary_loop ?E (config example_client) (merge_page [bookA, bookB] Map.empty) 2
        [FetchLibrary (Some ''token'') 1] =
      Some ((config example_client)\<lparr>authToken := None\<rparr>, merge_page [bookA, bookB] Map.empty,
            [FetchLibrary (Some ''token'') 1, FetchLibrary (Some ''token'') 2,
             LogErrorMessage ''Failed to fetch library: expired''])"
    by (subst getLibrary_loop.simps)
       (simp add: example_defs page_two_throws_def change_authToken_def)
  show ?thesis
    unfolding getLibrary_def first second
    by (simp add: example_defs merge_page_def bookA_def bookB_def)
qed

lemma downloadBook_config: "config (client (downloadBook env c b overwrite keepZip)) = config c"
  by (simp add: db_defs split: option.split sum.split prod.split)


lemma derive_filename_nonempty:
  assumes "title b \<noteq> []" "derive_filename b = Inr f"
  shows "f \<noteq> []"
proof -
  obtain a where a: "authors_string (authors b) = Inr a"
    using assms(2) by (auto simp: derive_filename_def split: sum.splits)
  have t: "join '' - '' (filter_Boolean [series_num b, Some (title b)]) \<noteq> []"
    using assms(1) by (cases "series_num b") auto
  have "\<And>t. t \<noteq> [] \<Longrightarrow> join ''/'' (filter_Boolean [Some a, series b, Some t]) \<noteq> []"
    by (cases "series b") auto
  from this [OF t] show ?thesis
    using assms(2) a by (auto simp: derive_filename_def Let_def)
qed

lemma try_block_cases:
  obtains (underived) e where "derive_filename b = Inl e"
      "try_block env c b md us tok kz = (Inl e, state c, [])"
  | (transfer) f m where "derive_filename b = Inr f"
      "downloadFiles env f us tok kz (downloadDir (config c)) = Inl m"
      "try_block env c b md us tok kz =
         (Inl (Rejected m), state c, [DownloadFiles f us tok kz (downloadDir (config c))])"
  | (sidecar) f p z m where "derive_filename b = Inr f"
      "downloadFiles env f us tok kz (downloadDir (config c)) = Inr (p, z)"
      "saveMetadata env b md p = Inl m"
      "try_block env c b md us tok kz =
         (Inl (Rejected m), state c,
          [DownloadFiles f us tok kz (downloadDir (config c)), SaveMetadata b md p])"
  | (unwritten) f p z m where "derive_filename b = Inr f"
      "downloadFiles env f us tok kz (downloadDir (config c)) = Inr (p, z)"
      "saveMetadata env b md p = Inr ()"
      "addBook env (state c) \<lparr>book = b, path = p, meta = md, zippedPaths = z\<rparr> = Inl m"
      "try_block env c b md us tok kz =
         (Inl (Rejected m), state c,
          [DownloadFiles f us tok kz (downloadDir (config c)), SaveMetadata b md p,
           AddBook \<lparr>book = b, path = p, meta = md, zippedPaths = z\<rparr>])"
  | (stored) f p z st where "derive_filename b = Inr f"
      "downloadFiles env f us tok kz (downloadDir (config c)) = Inr (p, z)"
      "saveMetadata env b md p = Inr ()"
      "addBook env (state c) \<lparr>book = b, path = p, meta = md, zippedPaths = z\<rparr> = Inr st"
      "try_block env c b md us tok kz =
         (Inr f, st,
          [DownloadFiles f us tok kz (downloadDir (config c)), SaveMetadata b md p,
           AddBook \<lparr>book = b, path = p, meta = md, zippedPaths = z\<rparr>])"
proof (cases "derive_filename b")
  case (Inl e)
  then show ?thesis using underived by (simp add: try_block_def)
next
  case f: (Inr f)
  show ?thesis
  proof (cases "downloadFiles env f us tok kz (downloadDir (config c))")
    case (Inl m)
    then show ?thesis using f transfer by (simp add: try_block_def)
  next
    case (Inr pz)
    then obtain p z where pz: "downloadFiles env f us tok kz (downloadDir (config c)) = Inr (p, z)"
      by (cases pz) simp
    show ?thesis
    proof (cases "saveMetadata env b md p")
      case (Inl m)
      then show ?thesis using f pz sidecar by (simp add: try_block_def)
    next
      case u: (Inr u)
      show ?thesis
      proof (cases "addBook env (state c) \<lparr>book = b, path = p, meta = md, zippedPaths = z\<rparr>")
        case (Inl m)
        then show ?thesis using f pz u unwritten by (simp add: try_block_def)
      next
        case (Inr st)
        then show ?thesis using f pz u stored by (simp add: try_block_def)
      qed
    qed
  qed
qed

lemma downloadBook_cases:
  obtains (unauthenticated) "\<not> truthy (authToken (config c))"
      "downloadBook env c b ow kz = \<lparr>result = Inl NotLoggedIn, client = c, trace = []\<rparr>"
  | (unresolved) tok m where "authToken (config c) = Some tok" "tok \<noteq> []"
      "fetchDownloadMetadata env tok (isbn b) = Inl m"
      "downloadBook env c b ow kz =
         \<lparr>result = Inl (Rejected m), client = c, trace = [FetchDownloadMetadata tok (isbn b)]\<rparr>"
  | (unanswered) tok md m where "authToken (config c) = Some tok" "tok \<noteq> []"
      "fetchDownloadMetadata env tok (isbn b) = Inr md"
      "\<not> ow" "hasBook env (state c) (isbn b)" "requestOverwrite env b = Inl m"
      "downloadBook env c b ow kz =
         \<lparr>result = Inl (Rejected m), client = c,
          trace = [FetchDownloadMetadata tok (isbn b),
                   LogVerbose (''Downloading book: '' @ meta_isbn md), RequestOverwrite b]\<rparr>"
  | (skipped) tok md where "authToken (config c) = Some tok" "tok \<noteq> []"
      "fetchDownloadMetadata env tok (isbn b) = Inr md"
      "\<not> ow" "hasBook env (state c) (isbn b)" "requestOverwrite env b = Inr False"
      "downloadBook env c b ow kz =
         \<lparr>result = Inr [], client = c,
          trace = [FetchDownloadMetadata tok (isbn b),
                   LogVerbose (''Downloading book: '' @ meta_isbn md), RequestOverwrite b,
                   LogVerbose ''Skipping download'']\<rparr>"
  | (agreed) tok md where "authToken (config c) = Some tok" "tok \<noteq> []"
      "fetchDownloadMetadata env tok (isbn b) = Inr md"
      "\<not> ow" "hasBook env (state c) (isbn b)" "requestOverwrite env b = Inr True"
      "downloadBook env c b ow kz =
         try_catch env c b md (map url (parts md)) tok kz
           [FetchDownloadMetadata tok (isbn b),
            LogVerbose (''Downloading book: '' @ meta_isbn md), RequestOverwrite b]"
  | (unasked) tok md where "authToken (config c) = Some tok" "tok \<noteq> []"
      "fetchDownloadMetadata env tok (isbn b) = Inr md"
      "ow \<or> \<not> hasBook env (state c) (isbn b)"
      "downloadBook env c b ow kz =
         try_catch env c b md (map url (parts md)) tok kz
           [FetchDownloadMetadata tok (isbn b),
            LogVerbose (''Downloading book: '' @ meta_isbn md)]"
proof (cases "authToken (config c)")
  case None
  then show ?thesis using unauthenticated by (simp add: downloadBook_def)
next
  case tok: (Some tok)
  show ?thesis
  proof (cases "tok = []")
    case True
    then show ?thesis using tok unauthenticated by (simp add: downloadBook_def)
  next
    case ne: False
    show ?thesis
    proof (cases "fetchDownloadMetadata env tok (isbn b)")
      case (Inl m)
      then show ?thesis
        using tok ne unresolved by (simp add: downloadBook_def getDownloadMetadata_def)
    next
      case md: (Inr md)
      show ?thesis
      proof (cases "\<not> ow \<and> hasBook env (state c) (isbn b)")
        case False
        then have "downloadBook env c b ow kz =
            try_catch env c b md (map url (parts md)) tok kz
              [FetchDownloadMetadata tok (isbn b),
               LogVerbose (''Downloading book: '' @ meta_isbn md)]"
          using tok ne md by (auto simp: downloadBook_def getDownloadMetadata_def Let_def)
        with False tok ne md show ?thesis by (intro unasked [of tok md]) auto
      next
        case ask: True
        show ?thesis
        proof (cases "requestOverwrite env b")
          case (Inl m)
          then have "downloadBook env c b ow kz =
            \<lparr>result = Inl (Rejected m), client = c,
             trace = [FetchDownloadMetadata tok (isbn b),
                      LogVerbose (''Downloading book: '' @ meta_isbn md), RequestOverwrite b]\<rparr>"
            using tok ne md ask by (simp add: downloadBook_def getDownloadMetadata_def Let_def)
          with Inl ask tok ne md show ?thesis by (intro unanswered [of tok md m]) auto
        next
          case (Inr answer)
          show ?thesis
          proof (cases answer)
            case True
            then have "downloadBook env c b ow kz =
              try_catch env c b md (map url (parts md)) tok kz
                [FetchDownloadMetadata tok (isbn b),
                 LogVerbose (''Downloading book: '' @ meta_isbn md), RequestOverwrite b]"
              using Inr tok ne md ask
              by (simp add: downloadBook_def getDownloadMetadata_def Let_def)
            with True Inr ask tok ne md show ?thesis by (intro agreed [of tok md]) auto
          next
            case False
            then have "downloadBook env c b ow kz =
              \<lparr>result = Inr [], client = c,
               trace = [FetchDownloadMetadata tok (isbn b),
                        LogVerbose (''Downloading book: '' @ meta_isbn md), RequestOverwrite b,
                        LogVerbose ''Skipping download'']\<rparr>"
              using Inr tok ne md ask
              by (simp add: downloadBook_def getDownloadMetadata_def Let_def)
            with False Inr ask tok ne md show ?thesis by (intro skipped [of tok md]) auto
          qed
        qed
      qed
    qed
  qed
qed

lemma body_reached:
  assumes "authToken (config c) = Some tok" "tok \<noteq> []"
    and "fetchDownloadMetadata env tok (isbn b) = Inr md"
    and "ow \<or> \<not> hasBook env (state c) (isbn b) \<or> requestOverwrite env b = Inr True"
  obtains tr where
    "downloadBook env c b ow kz = try_catch env c b md (map url (parts md)) tok kz tr"
    "tr = [FetchDownloadMetadata tok (isbn b), LogVerbose (''Downloading book: '' @ meta_isbn md)]
     \<or> tr = [FetchDownloadMetadata tok (isbn b), LogVerbose (''Downloading book: '' @ meta_isbn md),
              RequestOverwrite b]"
  using assms by (cases rule: downloadBook_cases [of c env b ow kz]) auto

lemma try_catch_transfer_filename:
  assumes "DownloadFiles f us' t k d \<in> set (trace (try_catch env c b md us tok kz tr))"
  shows "derive_filename b = Inr f \<or> DownloadFiles f us' t k d \<in> set tr"
  using assms
  by (cases rule: try_block_cases [of b env c md us tok kz]) (auto simp: try_catch_def)

lemma downloadBook_transfer_filename:
  assumes "DownloadFiles f us t k d \<in> set (trace (downloadBook env c b ow kz))"
  shows "derive_filename b = Inr f"
  using assms
  by (cases rule: downloadBook_cases [of c env b ow kz])
     (auto dest: try_catch_transfer_filename)

lemma join_sep_concat: "join sep xs = sep_concat sep xs"
proof (induction sep xs rule: join.induct)
  case (1 sep)
  show ?case by (simp add: sep_concat_def)
next
  case (2 sep x)
  show ?case by (simp add: sep_concat_def)
next
  case (3 sep x y ys)
  then show ?case by (simp add: sep_concat_def)
qed

lemma filter_Boolean_present:
  "filter_Boolean xs =
     filter (\<lambda>c. c \<noteq> []) (map (\<lambda>x. case x of None \<Rightarrow> [] | Some s \<Rightarrow> s) xs)"
proof (induction xs)
  case Nil
  show ?case by simp
next
  case (Cons x xs)
  then show ?case by (cases x) simp_all
qed

lemma authors_string_names:
  "authors_string a =
     (if a = NoAuthors \<or> a = AuthorName [] then Inl NoAuthorsFound
      else Inr (sep_concat '', '' (author_names a)))"
  by (cases a) (simp_all add: join_sep_concat, simp add: sep_concat_def)

lemma derive_filename_spec:
  "derive_filename b =
     (if authors b = NoAuthors \<or> authors b = AuthorName [] then Inl NoAuthorsFound
      else Inr (spec_relative_path (author_names (authors b)) (series b) (series_num b) (title b)))"
  by (simp add: derive_filename_def authors_string_names Let_def join_sep_concat
        filter_Boolean_present spec_relative_path_def spec_components_def)

lemma layout_all_present:
  assumes "sep_concat '', '' names \<noteq> []" "se \<noteq> Some []" "pos \<noteq> Some []" "t \<noteq> []"
  shows "spec_relative_path names se pos t =
           sep_concat '', '' names
           @ (case se of None \<Rightarrow> [] | Some s \<Rightarrow> ''/'' @ s)
           @ ''/''
           @ (case pos of None \<Rightarrow> [] | Some p \<Rightarrow> p @ '' - '')
           @ t"
  using assms
  by (cases se; cases pos) (simp_all add: spec_relative_path_def spec_components_def sep_concat_def)

lemma try_catch_stored:
  assumes "result (try_catch env c b md us tok kz tr) = Inr f"
    and "AddBook r \<in> set (trace (try_catch env c b md us tok kz tr))"
  shows "AddBook r \<in> set tr
       \<or> derive_filename b = Inr f
         \<and> downloadFiles env f us tok kz (downloadDir (config c)) = Inr (path r, zippedPaths r)"
  using assms
  by (cases rule: try_block_cases [of b env c md us tok kz]) (auto simp: try_catch_def)

lemma try_catch_returned:
  assumes "result (try_catch env c b md us tok kz tr) = Inr f"
  shows "derive_filename b = Inr f \<and> (\<exists>r. AddBook r \<in> set (trace (try_catch env c b md us tok kz tr)))"
  using assms
  by (cases rule: try_block_cases [of b env c md us tok kz]) (auto simp: try_catch_def)

lemma skip_returns_empty:
  assumes "authToken (config c) = Some tok" "tok \<noteq> []"
    and "fetchDownloadMetadata env tok (isbn b) = Inr md"
    and "\<not> ow" "hasBook env (state c) (isbn b)" "requestOverwrite env b = Inr False"
  shows "result (downloadBook env c b ow kz) = Inr []"
  using assms by (simp add: downloadBook_def getDownloadMetadata_def)

lemma stored_returns_filename:
  assumes "result (downloadBook env c b ow kz) = Inr f"
    and "AddBook r \<in> set (trace (downloadBook env c b ow kz))"
  shows "derive_filename b = Inr f
       \<and> (\<exists>us tok. downloadFiles env f us tok kz (downloadDir (config c))
                      = Inr (path r, zippedPaths r))"
  using assms
  by (cases rule: downloadBook_cases [of c env b ow kz]) (auto dest!: try_catch_stored)

lemma empty_iff_skipped:
  assumes "title b \<noteq> []" "result (downloadBook env c b ow kz) = Inr f"
  shows "f = [] \<longleftrightarrow> (\<forall>r. AddBook r \<notin> set (trace (downloadBook env c b ow kz)))"
  using assms
  by (cases rule: downloadBook_cases [of c env b ow kz])
     (auto dest!: try_catch_returned derive_filename_nonempty)




subsection \<open>The session after a failed call\<close>

text \<open>
  Claim C3 says that every failed authenticated call clears the auth token. A rejected
  transfer and a rejected metadata resolution both leave the token in the session.
\<close>

theorem token_survives_download_counterexample:
  "result (downloadBook full_disk_env example_client bookA False False) = Inl DownloadFailed
   \<and> authToken (config (client (downloadBook full_disk_env example_client bookA False False)))
       = Some ''token''
   \<and> result (downloadBook gateway_down_env example_client bookA False False)
       = Inl (Rejected ''gone'')
   \<and> authToken (config (client (downloadBook gateway_down_env example_client bookA False False)))
       = Some ''token''"
  by (simp add: example_defs bookA_def db_defs derive_filename_def)

text \<open>
  Claim C3, as amended. Of the authenticated calls only the paginated listing clears the
  token. When \<open>getLibrary\<close>, started with a truthy token, returns, the auth token
  is absent afterwards exactly when one of the page requests it made was rejected. And
  \<open>downloadBook\<close> returns the session it was given in every outcome, so a failed
  metadata resolution or transfer leaves the token in place.
\<close>

theorem token_cleared_by_listing_only:
  "(getLibrary env c = Some out \<and> authToken (config c) = Some tok \<and> tok \<noteq> [] \<longrightarrow>
      (authToken (config (client out)) = None \<longleftrightarrow>
         (\<exists>p msg. FetchLibrary (Some tok) p \<in> set (trace out)
                   \<and> fetchLibrary env (Some tok) p = Inl msg)))
   \<and> config (client (downloadBook env c b overwrite keepZip)) = config c"
proof -
  have "authToken (config (client out)) = None \<longleftrightarrow>
         (\<exists>p msg. FetchLibrary (Some tok) p \<in> set (trace out)
                   \<and> fetchLibrary env (Some tok) p = Inl msg)"
    if out: "getLibrary env c = Some out" and tok: "authToken (config c) = Some tok" "tok \<noteq> []"
  proof -
    from out tok obtain y where
      y: "getLibrary_loop env (config c) Map.empty 1 [] = Some y"
      and o: "out = \<lparr>result = Inr (fst (snd y)), client = c\<lparr>config := fst y\<rparr>, trace = snd (snd y)\<rparr>"
      by (auto simp: getLibrary_def)
    from loop_outcome [OF y] tok show ?thesis
      unfolding o by auto
  qed
  then show ?thesis
    by (simp add: downloadBook_config)
qed

theorem token_cleared_by_listing_only_witness:
  "getLibrary (full_disk_env\<lparr>fetchLibrary := page_two_throws\<rparr>) example_client =
     Some \<lparr>result = Inr [''A'' \<mapsto> bookA, ''B'' \<mapsto> bookB],
           client = example_client\<lparr>config := (config example_client)\<lparr>authToken := None\<rparr>\<rparr>,
           trace = [FetchLibrary (Some ''token'') 1, FetchLibrary (Some ''token'') 2,
                    LogErrorMessage ''Failed to fetch library: expired'']\<rparr>
   \<and> fetchLibrary (full_disk_env\<lparr>fetchLibrary := page_two_throws\<rparr>) (Some ''token'') 2
       = Inl ''expired''
   \<and> result (downloadBook (full_disk_env\<lparr>fetchLibrary := page_two_throws\<rparr>)
                example_client bookA False False) = Inl DownloadFailed
   \<and> config (client (downloadBook (full_disk_env\<lparr>fetchLibrary := page_two_throws\<rparr>)
                       example_client bookA False False))
       = config example_client"
  using token_cleared_by_listing_only [of "full_disk_env\<lparr>fetchLibrary := page_two_throws\<rparr>"
          example_client
          "\<lparr>result = Inr [''A'' \<mapsto> bookA, ''B'' \<mapsto> bookB],
           client = example_client\<lparr>config := (config example_client)\<lparr>authToken := None\<rparr>\<rparr>,
           trace = [FetchLibrary (Some ''token'') 1, FetchLibrary (Some ''token'') 2,
                    LogErrorMessage ''Failed to fetch library: expired'']\<rparr>"
          "''token''" bookA False False]
        expired_listing_run
  by (simp add: example_defs page_two_throws_def bookA_def db_defs derive_filename_def)

subsection \<open>Items without authors\<close>

text \<open>
  Claim C4 says that an item without authors fails before any network work. The gateway
  is asked for the download metadata first; and where the ledger holds the item and the
  answer to the overwrite prompt is no, the call does not fail at all.
\<close>

theorem missing_authors_after_network_counterexample:
  "authors no_authors_book = NoAuthors
   \<and> result (downloadBook example_env example_client no_authors_book False False)
       = Inl DownloadFailed
   \<and> list_ex is_network (trace (downloadBook example_env example_client no_authors_book False False))
   \<and> result (downloadBook example_env (returning_client no_authors_book) no_authors_book False False)
       = Inr []"
  by (simp add: example_defs no_authors_book_def db_defs derive_filename_def)

text \<open>
  Claim C4, as amended. For an item whose authors field is absent or the empty string,
  \<open>downloadBook\<close> never calls the transfer collaborator and never writes the ledger,
  and the client is as it was. When the session has a truthy token, the gateway resolves
  the metadata and the download is not skipped or rejected at the overwrite prompt, the
  call fails with the generic download failure, the missing authors being the last entry
  of the error log; the request to the gateway for the metadata has been made by then.
\<close>

theorem downloadBook_missing_authors:
  assumes na: "authors b = NoAuthors \<or> authors b = AuthorName []"
  shows "(\<forall>e \<in> set (trace (downloadBook env c b overwrite keepZip)). \<not> is_transfer e)
       \<and> (\<forall>r. AddBook r \<notin> set (trace (downloadBook env c b overwrite keepZip)))
       \<and> client (downloadBook env c b overwrite keepZip) = c
       \<and> (\<forall>tok md. authToken (config c) = Some tok \<and> tok \<noteq> []
              \<and> fetchDownloadMetadata env tok (isbn b) = Inr md
              \<and> (overwrite \<or> \<not> hasBook env (state c) (isbn b) \<or> requestOverwrite env b = Inr True)
            \<longrightarrow> result (downloadBook env c b overwrite keepZip) = Inl DownloadFailed
              \<and> hd (trace (downloadBook env c b overwrite keepZip)) = FetchDownloadMetadata tok (isbn b)
              \<and> last (trace (downloadBook env c b overwrite keepZip)) = LogError NoAuthorsFound)"
proof -
  have d: "derive_filename b = Inl NoAuthorsFound"
    using na by (auto simp: derive_filename_def)
  have t: "\<And>md us tok tr. try_catch env c b md us tok keepZip tr =
             \<lparr>result = Inl DownloadFailed, client = c, trace = tr @ [LogError NoAuthorsFound]\<rparr>"
    using d by (simp add: try_catch_def try_block_def)
  show ?thesis
    by (cases rule: downloadBook_cases [of c env b overwrite keepZip]) (auto simp: t)
qed

theorem downloadBook_missing_authors_witness:
  "downloadBook example_env example_client no_authors_book False False =
     \<lparr>result = Inl DownloadFailed, client = example_client,
      trace = [FetchDownloadMetadata ''token'' ''N'', LogVerbose ''Downloading book: N'',
               LogError NoAuthorsFound]\<rparr>"
  using downloadBook_missing_authors [of no_authors_book example_env example_client False False]
  by (simp add: example_defs no_authors_book_def db_defs derive_filename_def)




subsection \<open>The skip path\<close>

text \<open>
  Claim C5. Let the ledger hold a record for the item's identifier, \<open>overwrite\<close> be
  false and the overwrite prompt answer no. Then \<open>downloadBook\<close> makes no call to the
  transfer collaborator and none to \<open>addBook\<close>, and the client, hence the ledger and
  its record for the identifier, is as it was; and when the session has a truthy token
  and the gateway resolves the metadata, so that the prompt is reached, the result is the
  empty string.
\<close>

theorem downloadBook_skip:
  assumes "\<not> overwrite" "hasBook env (state c) (isbn b)" "requestOverwrite env b = Inr False"
  shows "(\<forall>e \<in> set (trace (downloadBook env c b overwrite keepZip)). \<not> is_transfer e)
       \<and> (\<forall>r. AddBook r \<notin> set (trace (downloadBook env c b overwrite keepZip)))
       \<and> client (downloadBook env c b overwrite keepZip) = c
       \<and> (\<forall>tok md. authToken (config c) = Some tok \<and> tok \<noteq> []
              \<and> fetchDownloadMetadata env tok (isbn b) = Inr md
            \<longrightarrow> result (downloadBook env c b overwrite keepZip) = Inr [])"
  using assms by (cases rule: downloadBook_cases [of c env b overwrite keepZip]) auto

theorem downloadBook_skip_witness:
  "hasBook example_env (state (returning_client bookB)) (isbn bookB)
   \<and> requestOverwrite example_env bookB = Inr False
   \<and> downloadBook example_env (returning_client bookB) bookB False False =
       \<lparr>result = Inr [], client = returning_client bookB,
        trace = [FetchDownloadMetadata ''token'' ''B'', LogVerbose ''Downloading book: B'',
                 RequestOverwrite bookB, LogVerbose ''Skipping download'']\<rparr>
   \<and> state (returning_client bookB) ''B'' = Some (record_of bookB)"
  using downloadBook_skip [of False example_env "returning_client bookB" bookB False]
  by (simp add: example_env_def example_client_def returning_client_def bookB_def
        ledger_hasBook_def downloadBook_def getDownloadMetadata_def)

subsection \<open>The relative path\<close>

text \<open>
  Claim C6. For every item, the path derived by \<open>downloadBook\<close> is the one the spec
  describes: the authors joined with ", ", the series, and the title with the series
  position and " - " before it, every component that is absent or empty left out and the
  others joined with "/"; an item whose authors are absent or the empty string has no
  path. It is the path every call of the transfer receives, and none of its components is
  empty. Where authors, title and, if given, series and position are not empty, it reads
  authors, then "/" and the series if there is one, then "/", then the position and
  " - " if there is one, then the title. The instances are the two items of the spec,
  "A. Author, B. Writer/Saga/2 - The Book" and, without a series, "A. Author/The Book",
  and an item whose series and position are empty strings.
\<close>

theorem derive_filename_layout:
  "derive_filename b =
     (if authors b = NoAuthors \<or> authors b = AuthorName [] then Inl NoAuthorsFound
      else Inr (spec_relative_path (author_names (authors b)) (series b) (series_num b) (title b)))
   \<and> (\<forall>f us t k d. DownloadFiles f us t k d \<in> set (trace (downloadBook env c b overwrite keepZip))
         \<longrightarrow> f = spec_relative_path (author_names (authors b)) (series b) (series_num b) (title b))
   \<and> [] \<notin> set (spec_components (author_names (authors b)) (series b) (series_num b) (title b))
   \<and> (sep_concat '', '' names \<noteq> [] \<and> se \<noteq> Some [] \<and> pos \<noteq> Some [] \<and> ti \<noteq> []
        \<longrightarrow> spec_relative_path names se pos ti =
              sep_concat '', '' names
              @ (case se of None \<Rightarrow> [] | Some s \<Rightarrow> ''/'' @ s)
              @ ''/''
              @ (case pos of None \<Rightarrow> [] | Some p \<Rightarrow> p @ '' - '')
              @ ti)"
proof -
  have transfer: "f = spec_relative_path (author_names (authors b)) (series b) (series_num b) (title b)"
    if "DownloadFiles f us t k d \<in> set (trace (downloadBook env c b overwrite keepZip))"
    for f us t k d
  proof -
    from that have "derive_filename b = Inr f"
      by (rule downloadBook_transfer_filename)
    then show ?thesis
      by (simp add: derive_filename_spec split: if_splits)
  qed
  have present: "[] \<notin> set (spec_components (author_names (authors b)) (series b) (series_num b) (title b))"
    by (simp add: spec_components_def)
  show ?thesis
    using derive_filename_spec [of b] transfer present layout_all_present [of names se pos ti]
    by blast
qed

theorem derive_filename_layout_witness:
  "derive_filename bookA = Inr ''A. Author, B. Writer/Saga/2 - The Book''
   \<and> derive_filename bookB = Inr ''A. Author/The Book''
   \<and> derive_filename (bookA\<lparr>series := Some [], series_num := Some []\<rparr>)
       = Inr ''A. Author, B. Writer/The Book''
   \<and> DownloadFiles ''A. Author, B. Writer/Saga/2 - The Book'' [''u1''] ''token'' False (Some ''/dl'')
       \<in> set (trace (downloadBook example_env example_client bookA False False))
   \<and> spec_relative_path [''A. Author'', ''B. Writer''] (Some ''Saga'') (Some ''2'') ''The Book''
       = ''A. Author, B. Writer/Saga/2 - The Book''"
  using derive_filename_layout [of bookA example_env example_client False False
          "[''A. Author'', ''B. Writer'']" "Some ''Saga''" "Some ''2''" "''The Book''"]
        derive_filename_layout [of bookB example_env example_client False False]
        derive_filename_layout [of "bookA\<lparr>series := Some [], series_num := Some []\<rparr>"
          example_env example_client False False]
  by (simp add: bookA_def bookB_def spec_relative_path_def spec_components_def sep_concat_def
        example_defs db_defs derive_filename_def)

subsection \<open>Failures\<close>

text \<open>
  Claim C7 says that a failed metadata resolution reaches the caller as an error of its
  own kind, wrapping the cause. The client creates no such error: what \<open>downloadBook\<close>
  throws is the gateway's rejection itself, the value it also throws when the metadata
  resolves and the overwrite prompt rejects with the same message.
\<close>

theorem metadata_error_not_wrapped_counterexample:
  "fetchDownloadMetadata gateway_down_env ''token'' (isbn bookA) = Inl ''gone''
   \<and> result (downloadBook gateway_down_env example_client bookA False False)
       = Inl (Rejected ''gone'')
   \<and> fetchDownloadMetadata prompt_down_env ''token'' (isbn bookA)
       = Inr \<lparr>meta_isbn = ''A'', parts = [\<lparr>url = ''u1''\<rparr>]\<rparr>
   \<and> requestOverwrite prompt_down_env bookA = Inl ''gone''
   \<and> result (downloadBook prompt_down_env (returning_client bookA) bookA False False)
       = result (downloadBook gateway_down_env example_client bookA False False)"
  by (simp add: example_defs bookA_def db_defs)

text \<open>
  Claim C7, as amended. With a truthy token, when the gateway rejects the resolution of
  the download metadata, the failure is not caught: \<open>downloadBook\<close> throws the gateway's
  own rejection, unchanged and with nothing wrapped around it, and never the generic
  download failure; nothing is logged as an error, no other collaborator is called and
  the client is as it was.
\<close>

theorem downloadBook_metadata_rejected:
  assumes "authToken (config c) = Some tok" "tok \<noteq> []"
    and "fetchDownloadMetadata env tok (isbn b) = Inl msg"
  shows "downloadBook env c b overwrite keepZip =
           \<lparr>result = Inl (Rejected msg), client = c, trace = [FetchDownloadMetadata tok (isbn b)]\<rparr>
       \<and> result (downloadBook env c b overwrite keepZip) \<noteq> Inl DownloadFailed"
  using assms by (simp add: downloadBook_def getDownloadMetadata_def)

theorem downloadBook_metadata_rejected_witness:
  "fetchDownloadMetadata gateway_down_env ''token'' (isbn bookA) = Inl ''gone''
   \<and> downloadBook gateway_down_env example_client bookA False False =
       \<lparr>result = Inl (Rejected ''gone''), client = example_client,
        trace = [FetchDownloadMetadata ''token'' ''A'']\<rparr>
   \<and> result (downloadBook gateway_down_env example_client bookA False False)
       \<noteq> Inl DownloadFailed"
  using downloadBook_metadata_rejected [of example_client "''token''" gateway_down_env bookA
          "''gone''" False False]
  by (simp add: example_defs bookA_def)

text \<open>
  Claim C8. Let the body of the download be reached: a truthy token, resolved metadata,
  and the download not skipped. If the path derivation fails, or the transfer rejects, or
  the saving of the metadata rejects, or \<open>addBook\<close> throws, then \<open>downloadBook\<close>
  throws the one generic download failure, which carries no data; the cause is the last
  entry of the error log; and the client, with its ledger, is as it was. \<open>addBook\<close> is
  called only once the transfer and the saving of the metadata have resolved.
  \<open>addBook\<close> is called without \<open>await\<close>, like \<open>hasBook\<close>, and is taken as
  synchronous; what a throwing \<open>addBook\<close> leaves in the ledger is the matter of the
  class \<open>State\<close>, and the model has no new ledger then.
\<close>

theorem downloadBook_body_failure:
  assumes tok: "authToken (config c) = Some tok" "tok \<noteq> []"
    and md: "fetchDownloadMetadata env tok (isbn b) = Inr md"
    and go: "overwrite \<or> \<not> hasBook env (state c) (isbn b) \<or> requestOverwrite env b = Inr True"
    and fail:
      "derive_filename b = Inl e
       \<or> (\<exists>f m. derive_filename b = Inr f
              \<and> downloadFiles env f (map url (parts md)) tok keepZip (downloadDir (config c)) = Inl m
              \<and> e = Rejected m)
       \<or> (\<exists>f p z m. derive_filename b = Inr f
              \<and> downloadFiles env f (map url (parts md)) tok keepZip (downloadDir (config c)) = Inr (p, z)
              \<and> saveMetadata env b md p = Inl m \<and> e = Rejected m)
       \<or> (\<exists>f p z m. derive_filename b = Inr f
              \<and> downloadFiles env f (map url (parts md)) tok keepZip (downloadDir (config c)) = Inr (p, z)
              \<and> saveMetadata env b md p = Inr ()
              \<and> addBook env (state c) \<lparr>book = b, path = p, meta = md, zippedPaths = z\<rparr> = Inl m
              \<and> e = Rejected m)"
  shows "result (downloadBook env c b overwrite keepZip) = Inl DownloadFailed
       \<and> last (trace (downloadBook env c b overwrite keepZip)) = LogError e
       \<and> client (downloadBook env c b overwrite keepZip) = c
       \<and> (\<forall>r. AddBook r \<in> set (trace (downloadBook env c b overwrite keepZip)) \<longrightarrow>
             (\<exists>f. derive_filename b = Inr f
                \<and> downloadFiles env f (map url (parts md)) tok keepZip (downloadDir (config c))
                    = Inr (path r, zippedPaths r)
                \<and> saveMetadata env b md (path r) = Inr ()))"
proof -
  from body_reached [OF tok md go, of keepZip] obtain tr where
    out: "downloadBook env c b overwrite keepZip
            = try_catch env c b md (map url (parts md)) tok keepZip tr"
    and tr: "tr = [FetchDownloadMetadata tok (isbn b),
                   LogVerbose (''Downloading book: '' @ meta_isbn md)]
           \<or> tr = [FetchDownloadMetadata tok (isbn b),
                   LogVerbose (''Downloading book: '' @ meta_isbn md), RequestOverwrite b]"
    by blast
  show ?thesis
    unfolding out using fail tr
    by (cases rule: try_block_cases [of b env c md "map url (parts md)" tok keepZip])
       (auto simp: try_catch_def)
qed

theorem downloadBook_body_failure_witness:
  "downloadBook full_disk_env example_client bookA False False =
     \<lparr>result = Inl DownloadFailed, client = example_client,
      trace = [FetchDownloadMetadata ''token'' ''A'', LogVerbose ''Downloading book: A'',
               DownloadFiles ''A. Author, B. Writer/Saga/2 - The Book'' [''u1''] ''token'' False
                 (Some ''/dl''),
               LogError (Rejected ''disk full'')]\<rparr>
   \<and> result (downloadBook example_env example_client no_authors_book False False)
       = Inl DownloadFailed
   \<and> last (trace (downloadBook example_env example_client no_authors_book False False))
       = LogError NoAuthorsFound"
  using downloadBook_body_failure [of example_client "''token''" full_disk_env bookA
          "\<lparr>meta_isbn = ''A'', parts = [\<lparr>url = ''u1''\<rparr>]\<rparr>" False "Rejected ''disk full''" False]
        downloadBook_body_failure [of example_client "''token''" example_env no_authors_book
          "\<lparr>meta_isbn = ''N'', parts = [\<lparr>url = ''u1''\<rparr>]\<rparr>" False NoAuthorsFound False]
  by (simp add: example_defs bookA_def no_authors_book_def db_defs derive_filename_def)

subsection \<open>The returned string\<close>

text \<open>
  Claim C9 says that the empty string tells a skipped download from a completed one. An
  item with an empty list of authors, an empty title and no series is transferred and
  recorded under the empty path, and the call returns the empty string, as the skipped
  call for the same item does.
\<close>

theorem empty_string_on_success_counterexample:
  "result (downloadBook example_env example_client blank_book False False) = Inr []
   \<and> trace (downloadBook example_env example_client blank_book False False) =
       [FetchDownloadMetadata ''token'' ''Z'', LogVerbose ''Downloading book: Z'',
        DownloadFiles [] [''u1''] ''token'' False (Some ''/dl''),
        SaveMetadata blank_book \<lparr>meta_isbn = ''Z'', parts = [\<lparr>url = ''u1''\<rparr>]\<rparr> ''/dl/'',
        AddBook \<lparr>book = blank_book, path = ''/dl/'',
                 meta = \<lparr>meta_isbn = ''Z'', parts = [\<lparr>url = ''u1''\<rparr>]\<rparr>, zippedPaths = None\<rparr>]
   \<and> result (downloadBook example_env (returning_client blank_book) blank_book False False)
       = Inr []"
  by (simp add: example_defs blank_book_def db_defs derive_filename_def)

text \<open>
  Claim C9, as amended. On the skip path \<open>downloadBook\<close> returns the empty string. When
  it returns after writing the ledger, the string returned is the derived relative path,
  whatever final path the transfer reported and the record holds. For an item with a
  non-empty title the returned string is empty exactly when no record was written, so a
  caller can tell a skipped download from a completed one.
\<close>

theorem downloadBook_returned_string:
  "(authToken (config c) = Some tok \<and> tok \<noteq> []
      \<and> fetchDownloadMetadata env tok (isbn b) = Inr md
      \<and> \<not> overwrite \<and> hasBook env (state c) (isbn b) \<and> requestOverwrite env b = Inr False
    \<longrightarrow> result (downloadBook env c b overwrite keepZip) = Inr [])
   \<and> (result (downloadBook env c b overwrite keepZip) = Inr f
      \<and> AddBook r \<in> set (trace (downloadBook env c b overwrite keepZip))
    \<longrightarrow> derive_filename b = Inr f
      \<and> (\<exists>us tok. downloadFiles env f us tok keepZip (downloadDir (config c))
                      = Inr (path r, zippedPaths r)))
   \<and> (title b \<noteq> [] \<and> result (downloadBook env c b overwrite keepZip) = Inr f
    \<longrightarrow> (f = [] \<longleftrightarrow> (\<forall>r. AddBook r \<notin> set (trace (downloadBook env c b overwrite keepZip)))))"
  using skip_returns_empty [of c tok env b md overwrite keepZip]
    stored_returns_filename [of env c b overwrite keepZip f r]
    empty_iff_skipped [of b env c overwrite keepZip f]
  by blast

theorem downloadBook_returned_string_witness:
  "result (downloadBook example_env (returning_client bookB) bookB False False) = Inr []
   \<and> result (downloadBook example_env example_client bookA False False)
       = Inr ''A. Author, B. Writer/Saga/2 - The Book''
   \<and> AddBook \<lparr>book = bookA, path = ''/dl/A. Author, B. Writer/Saga/2 - The Book'',
               meta = \<lparr>meta_isbn = ''A'', parts = [\<lparr>url = ''u1''\<rparr>]\<rparr>, zippedPaths = None\<rparr>
       \<in> set (trace (downloadBook example_env example_client bookA False False))
   \<and> title bookA \<noteq> []"
  using downloadBook_returned_string [where c = "returning_client bookB" and tok = "''token''"
          and env = example_env and b = bookB
          and md = "\<lparr>meta_isbn = ''B'', parts = [\<lparr>url = ''u1''\<rparr>]\<rparr>"
          and overwrite = False and keepZip = False]
        downloadBook_returned_string [where c = example_client and tok = "''token''"
          and env = example_env and b = bookA
          and overwrite = False and keepZip = False
          and f = "''A. Author, B. Writer/Saga/2 - The Book''"
          and r = "\<lparr>book = bookA, path = ''/dl/A. Author, B. Writer/Saga/2 - The Book'',
               meta = \<lparr>meta_isbn = ''A'', parts = [\<lparr>url = ''u1''\<rparr>]\<rparr>, zippedPaths = None\<rparr>"]
  by (simp add: example_defs bookA_def bookB_def db_defs derive_filename_def)

end
